theory Spec2Isabelle
  imports Main
begin

section \<open>Data model of the forwarder (src/main.py)\<close>

text \<open>
  Python \<open>str\<close> and \<open>bytes\<close> values are both modelled as \<open>string\<close> (a list of 8-bit
  characters); a decoded text is represented by its UTF-8 byte sequence. A Python
  \<open>dict\<close> of header names to header values is a map. The header mappings of the web
  framework and of the HTTP client are modelled as the dictionaries that
  \<open>dict(request.headers)\<close> and \<open>dict(response.headers)\<close> produce, with the lower-case
  keys those libraries report.
\<close>

type_synonym bytes = string

type_synonym py_dict = "string \<rightharpoonup> string"

text \<open>
  Exceptions that occur in the modelled code: \<open>bytes.decode()\<close> raises
  \<open>UnicodeDecodeError\<close>; \<open>client.request\<close> raises one of the transport errors of the HTTP
  client (or any other exception), each carrying its message.
\<close>

datatype exn =
    UnicodeDecodeError
  | JSONDecodeError string
  | ConnectError string
  | TimeoutException string
  | OtherException string

fun str_exn :: "exn \<Rightarrow> string" where
  "str_exn UnicodeDecodeError = ''invalid start byte''"
| "str_exn (JSONDecodeError m) = m"
| "str_exn (ConnectError m) = m"
| "str_exn (TimeoutException m) = m"
| "str_exn (OtherException m) = m"

text \<open>The inbound request, with the attributes that main.py reads (\<open>req_method\<close> is
  \<open>request.method\<close>, \<open>query\<close> is \<open>request.url.query\<close>, \<open>client\<close> is \<open>request.client.host\<close>).\<close>

record request =
  req_method :: string
  url :: string
  url_path :: string
  query :: string
  client :: "string option"
  headers :: py_dict
  query_params :: py_dict
  body :: bytes

text \<open>The response object that \<open>client.request\<close> returns.\<close>

record httpx_response =
  resp_status_code :: int
  resp_headers :: py_dict
  resp_content :: bytes

text \<open>The keyword arguments of \<open>client.request\<close> in \<open>forward_request\<close>.\<close>

record outbound =
  o_method :: string
  o_url :: string
  o_headers :: py_dict
  o_content :: bytes
  o_follow_redirects :: bool

text \<open>The arguments of the \<open>Response\<close> constructor that the handler returns.\<close>

record response =
  content :: bytes
  status_code :: int
  out_headers :: "py_dict option"
  media_type :: "string option"

section \<open>forward\_request: building the outbound request\<close>

text \<open>
  \<open>full_url = f"{url}?{request.url.query}" if request.url.query else url\<close>
\<close>

definition full_url :: "string \<Rightarrow> request \<Rightarrow> string" where
  "full_url u request = (if query request \<noteq> [] then u @ ''?'' @ query request else u)"

text \<open>
  \<open>headers = dict(request.headers); headers.pop('host', None)\<close>, then the call
  \<open>client.request(method=request.method, url=full_url, headers=headers, content=body,
  follow_redirects=True)\<close>.
\<close>

definition outbound_request :: "string \<Rightarrow> request \<Rightarrow> outbound" where
  "outbound_request u request =
     (let body' = body request;
          headers' = (headers request)(''host'' := None)
      in \<lparr> o_method = req_method request,
           o_url = full_url u request,
           o_headers = headers',
           o_content = body',
           o_follow_redirects = True \<rparr>)"

section \<open>log\_request\<close>

text \<open>
  \<open>body.decode()\<close> is the strict UTF-8 decoder: it raises \<open>UnicodeDecodeError\<close> on a
  byte sequence that is not well-formed UTF-8 (Unicode Standard, table 3-7). The decoded
  text is represented by the bytes themselves.
\<close>

definition cont :: "nat \<Rightarrow> bool" where
  "cont b = (128 \<le> b \<and> b \<le> 191)"

fun utf8_wf :: "nat list \<Rightarrow> bool" where
  "utf8_wf [] = True"
| "utf8_wf (b # bs) =
     (if b < 128 then utf8_wf bs
      else if 194 \<le> b \<and> b \<le> 223 then
        (case bs of c1 # r \<Rightarrow> cont c1 \<and> utf8_wf r | _ \<Rightarrow> False)
      else if 224 \<le> b \<and> b \<le> 239 then
        (case bs of
           c1 # c2 # r \<Rightarrow>
             (if b = 224 then 160 \<le> c1 \<and> c1 \<le> 191
              else if b = 237 then 128 \<le> c1 \<and> c1 \<le> 159
              else cont c1) \<and> cont c2 \<and> utf8_wf r
         | _ \<Rightarrow> False)
      else if 240 \<le> b \<and> b \<le> 244 then
        (case bs of
           c1 # c2 # c3 # r \<Rightarrow>
             (if b = 240 then 144 \<le> c1 \<and> c1 \<le> 191
              else if b = 244 then 128 \<le> c1 \<and> c1 \<le> 143
              else cont c1) \<and> cont c2 \<and> cont c3 \<and> utf8_wf r
         | _ \<Rightarrow> False)
      else False)"

definition decode :: "bytes \<Rightarrow> exn + string" where
  "decode b = (if utf8_wf (map of_char b) then Inr b else Inl UnicodeDecodeError)"

text \<open>
  The values that \<open>json.loads\<close> returns. Python's \<open>None\<close> is \<open>JNull\<close> and a Python
  \<open>str\<close> is a \<open>JString\<close>, so the logged \<open>body_data\<close> (\<open>None\<close>, the parsed JSON or the
  decoded text) is a value of this type. The parser itself is a parameter \<open>loads\<close> of the
  model; it returns the parsed value or raises.
\<close>

datatype json =
    JNull
  | JBool bool
  | JNumber string
  | JString string
  | JArray "json list"
  | JObject "(string \<times> json) list"

record log_data =
  ld_time :: string
  ld_method :: string
  ld_url :: string
  ld_client_ip :: "string option"
  ld_headers :: py_dict
  ld_query_params :: py_dict
  ld_body :: json

text \<open>
  The calls of the logger, one constructor per call site: \<open>logger.info\<close> in
  \<open>log_request\<close>, the two \<open>logger.debug\<close> and the \<open>logger.error\<close> of \<open>forward_request\<close>
  (with \<open>forward_url\<close>, and \<open>status_code\<close> and \<open>response_size\<close>, or \<open>error\<close>), and the
  \<open>logger.error\<close> of the handler's \<open>except\<close> branch.
\<close>

datatype log_event =
    Info_request log_data
  | Debug_forwarding_request log_data string
  | Debug_received_response log_data string int nat
  | Error_forwarding_error log_data string string
  | Error_forwarding_failed log_data string

text \<open>
  \<open>body_data\<close>: the \<open>try\<close> block decodes and parses a non-empty body; the bare
  \<open>except\<close> decodes the body again, outside any \<open>try\<close>, so an exception of that second
  \<open>decode\<close> leaves \<open>log_request\<close>.
\<close>

definition body_data :: "(string \<Rightarrow> exn + json) \<Rightarrow> bytes \<Rightarrow> exn + json" where
  "body_data loads body' =
     (case (if body' \<noteq> []
            then (case decode body' of Inl e \<Rightarrow> Inl e | Inr s \<Rightarrow> loads s)
            else Inr JNull) of
        Inr v \<Rightarrow> Inr v
      | Inl _ \<Rightarrow>
          (if body' \<noteq> []
           then (case decode body' of Inl e \<Rightarrow> Inl e | Inr s \<Rightarrow> Inr (JString s))
           else Inr JNull))"

text \<open>
  \<open>log_request\<close> returns the emitted log events and either the exception that leaves
  the function or the \<open>log_data\<close> dictionary. \<open>now\<close> is \<open>datetime.now().isoformat()\<close>.
\<close>

definition log_request ::
  "string \<Rightarrow> (string \<Rightarrow> exn + json) \<Rightarrow> request \<Rightarrow> log_event list \<times> (exn + log_data)" where
  "log_request now loads request =
     (let body' = body request
      in case body_data loads body' of
           Inl e \<Rightarrow> ([], Inl e)
         | Inr v \<Rightarrow>
             (let log_data =
                    \<lparr> ld_time = now,
                      ld_method = req_method request,
                      ld_url = url request,
                      ld_client_ip = client request,
                      ld_headers = headers request,
                      ld_query_params = query_params request,
                      ld_body = v \<rparr>
              in ([Info_request log_data], Inr log_data)))"

section \<open>forward\_request\<close>

text \<open>
  \<open>client\<close> is the behaviour of the HTTP client during this exchange: it returns the
  response (with any status code) or raises. The function returns its log events and
  either the response or the exception that the \<open>except\<close> block re-raises after logging.
\<close>

definition forward_request ::
  "(outbound \<Rightarrow> exn + httpx_response) \<Rightarrow> string \<Rightarrow> request \<Rightarrow> log_data
     \<Rightarrow> log_event list \<times> (exn + httpx_response)" where
  "forward_request client' u request log_data =
     (let ob = outbound_request u request;
          forward_log = Debug_forwarding_request log_data (o_url ob)
      in case client' ob of
           Inr response \<Rightarrow>
             ([forward_log,
               Debug_received_response log_data (o_url ob)
                 (resp_status_code response) (length (resp_content response))],
              Inr response)
         | Inl e \<Rightarrow>
             ([forward_log, Error_forwarding_error log_data u (str_exn e)], Inl e))"

section \<open>The handler forward\<close>

text \<open>
  \<open>CONFIG\<close>, as far as the handler reads it: the list under the key \<open>forward_urls\<close>.
  Loading the configuration file happens at start-up, outside the handler.
\<close>

record config =
  forward_urls :: "string list"

text \<open>
  A task is a coroutine object of \<open>forward_request\<close>, represented by what running it
  yields. The loop over \<open>enumerate(CONFIG['forward_urls'])\<close> inserts the task of index 0
  at the front of \<open>tasks\<close> and appends every other one. \<open>net i\<close> is the behaviour of the
  client during the exchange with destination \<open>i\<close>.
\<close>

type_synonym task = "log_event list \<times> (exn + httpx_response)"

fun make_tasks ::
  "(nat \<Rightarrow> outbound \<Rightarrow> exn + httpx_response) \<Rightarrow> request \<Rightarrow> log_data
     \<Rightarrow> nat \<Rightarrow> string list \<Rightarrow> task list \<Rightarrow> task list" where
  "make_tasks net request log_data i [] tasks = tasks"
| "make_tasks net request log_data i (u # urls) tasks =
     (let is_primary = (i = 0);
          task = forward_request (net i) u request log_data
      in if is_primary then make_tasks net request log_data (Suc i) urls (task # tasks)
         else make_tasks net request log_data (Suc i) urls (tasks @ [task]))"

text \<open>
  \<open>asyncio.gather(*tasks, return_exceptions=True)\<close>: every child has a result slot at
  its own position; \<open>order\<close> lists the positions in the order in which the children
  complete, and the slot of a child is filled when it completes. The join returns the
  slots, in the order of the children, once all are filled (an exception of a child is
  the value of its slot); it does not return while a child has not completed.
\<close>

definition gather :: "'a list \<Rightarrow> nat list \<Rightarrow> (exn + 'a list) option" where
  "gather children order =
     (let slots = fold (\<lambda>i s. if i < length s then s[i := Some (children ! i)] else s)
                    order (replicate (length children) None)
      in if list_all (\<lambda>s. s \<noteq> None) slots then Some (Inr (map the slots)) else None)"

text \<open>Every one of the \<open>n\<close> children occurs in the completion order.\<close>

definition completes :: "nat \<Rightarrow> nat list \<Rightarrow> bool" where
  "completes n order = list_all (\<lambda>i. i \<in> set order) [0..<n]"

text \<open>The two synthesized responses of the handler.\<close>

definition forwarding_failed_response :: response where
  \<open>forwarding_failed_response =
     \<lparr> content = ''{"error": "Forwarding failed"}'',
       status_code = 500,
       out_headers = None,
       media_type = Some ''application/json'' \<rparr>\<close>

definition no_valid_response :: response where
  \<open>no_valid_response =
     \<lparr> content = ''{"error": "No valid response from primary URL"}'',
       status_code = 502,
       out_headers = None,
       media_type = Some ''application/json'' \<rparr>\<close>

text \<open>
  The response built from the primary response: the headers are copied into a dict,
  three keys are popped, and \<open>media_type\<close> is \<open>primary_response.headers.get('content-type')\<close>.
\<close>

definition primary_to_response :: "httpx_response \<Rightarrow> response" where
  "primary_to_response primary_response =
     (let headers' = resp_headers primary_response;
          headers' = headers'(''content-encoding'' := None);
          headers' = headers'(''content-length'' := None);
          headers' = headers'(''transfer-encoding'' := None)
      in \<lparr> content = resp_content primary_response,
           status_code = resp_status_code primary_response,
           out_headers = Some headers',
           media_type = resp_headers primary_response ''content-type'' \<rparr>)"

text \<open>
  One run of the handler: the log events of the handler itself, the log events of each
  task, the list \<open>responses\<close> of the join, and the response returned to the caller or the
  exception that leaves the handler. The handler's value is \<open>None\<close> when the join never
  returns.

  \<open>primary_response and isinstance(primary_response, httpx.Response)\<close>: \<open>None\<close> is
  false, an exception object is true and is not a response, a response object is true
  (the class defines neither \<open>__bool__\<close> nor \<open>__len__\<close>).
\<close>

record run =
  events :: "log_event list"
  task_events :: "log_event list list"
  responses :: "(exn + httpx_response) list"
  outcome :: "exn + response"

definition forward ::
  "config \<Rightarrow> (nat \<Rightarrow> outbound \<Rightarrow> exn + httpx_response) \<Rightarrow> nat list \<Rightarrow> string
     \<Rightarrow> (string \<Rightarrow> exn + json) \<Rightarrow> request \<Rightarrow> string \<Rightarrow> run option" where
  "forward CONFIG net order now loads request path =
     (case log_request now loads request of
        (ev, Inl e) \<Rightarrow>
          Some \<lparr> events = ev, task_events = [], responses = [], outcome = Inl e \<rparr>
      | (ev, Inr log_data) \<Rightarrow>
          (let tasks = make_tasks net request log_data 0 (forward_urls CONFIG) []
           in case gather tasks order of
                None \<Rightarrow> None
              | Some (Inl e) \<Rightarrow>
                  Some \<lparr> events = ev @ [Error_forwarding_failed log_data (str_exn e)],
                         task_events = map fst tasks,
                         responses = [],
                         outcome = Inr forwarding_failed_response \<rparr>
              | Some (Inr results) \<Rightarrow>
                  (let responses' = map snd results;
                       primary_response =
                         (if responses' \<noteq> [] then Some (responses' ! 0) else None)
                   in Some \<lparr> events = ev,
                            task_events = map fst results,
                            responses = responses',
                            outcome =
                              (case primary_response of
                                 Some (Inr r) \<Rightarrow> Inr (primary_to_response r)
                               | _ \<Rightarrow> Inr no_valid_response) \<rparr>)))"

section \<open>Concrete inputs\<close>

text \<open>
  A request with a JSON body and a query string, the same request with a body that is
  not UTF-8 (one byte \<open>0xFF\<close>), a parser that rejects every text, and some behaviours of
  the network.
\<close>

definition example_request :: request where
  \<open>example_request =
     \<lparr> req_method = ''POST'',
       url = ''http://proxy.example/hook?a=1&b=2'',
       url_path = ''/hook'',
       query = ''a=1&b=2'',
       client = Some ''10.0.0.7'',
       headers = [''host'' \<mapsto> ''proxy.example'', ''content-type'' \<mapsto> ''application/json''],
       query_params = [''a'' \<mapsto> ''1'', ''b'' \<mapsto> ''2''],
       body = ''{"k": 1}'' \<rparr>\<close>

definition binary_request :: request where
  "binary_request = example_request\<lparr>body := [CHR 0xFF]\<rparr>"

definition loads_fail :: "string \<Rightarrow> exn + json" where
  "loads_fail s = Inl (JSONDecodeError ''Expecting value'')"

definition not_found_response :: httpx_response where
  \<open>not_found_response =
     \<lparr> resp_status_code = 404,
       resp_headers = [''content-type'' \<mapsto> ''application/json'', ''content-length'' \<mapsto> ''19'',
                       ''x-trace-id'' \<mapsto> ''abc123''],
       resp_content = ''{"msg":"not found"}'' \<rparr>\<close>

definition ok_response :: httpx_response where
  "ok_response =
     \<lparr> resp_status_code = 200,
       resp_headers = [''content-length'' \<mapsto> ''2''],
       resp_content = ''ok'' \<rparr>"

definition two_urls :: config where
  "two_urls = \<lparr> forward_urls = [''http://a.example/in'', ''http://b.example/in''] \<rparr>"

definition three_urls :: config where
  "three_urls =
     \<lparr> forward_urls = [''http://a.example/in'', ''http://b.example/in'', ''http://c.example/in''] \<rparr>"

definition no_urls :: config where
  "no_urls = \<lparr> forward_urls = [] \<rparr>"

definition net_not_found :: "nat \<Rightarrow> outbound \<Rightarrow> exn + httpx_response" where
  "net_not_found i ob = (if i = 0 then Inr not_found_response else Inr ok_response)"

definition net_primary_timeout :: "nat \<Rightarrow> outbound \<Rightarrow> exn + httpx_response" where
  "net_primary_timeout i ob =
     (if i = 0 then Inl (TimeoutException ''timed out'') else Inr ok_response)"

definition net_all_timeout :: "nat \<Rightarrow> outbound \<Rightarrow> exn + httpx_response" where
  "net_all_timeout i ob = Inl (TimeoutException ''timed out'')"

definition net_second_unreachable :: "nat \<Rightarrow> outbound \<Rightarrow> exn + httpx_response" where
  "net_second_unreachable i ob =
     (if i = 1 then Inl (ConnectError ''connection refused'')
      else if i = 0 then Inr not_found_response else Inr ok_response)"

definition refusing_client :: "outbound \<Rightarrow> exn + httpx_response" where
  "refusing_client ob = Inl (ConnectError ''connection refused'')"

definition example_log_data :: log_data where
  "example_log_data =
     \<lparr> ld_time = ''2024-01-01T00:00:00'',
       ld_method = req_method example_request,
       ld_url = url example_request,
       ld_client_ip = client example_request,
       ld_headers = headers example_request,
       ld_query_params = query_params example_request,
       ld_body = JString (body example_request) \<rparr>"

section \<open>Auxiliary facts\<close>

lemma make_tasks_append:
  "0 < i \<or> tasks = [] \<Longrightarrow>
   make_tasks net request log_data i urls tasks =
     tasks @ map (\<lambda>(j, u). forward_request (net j) u request log_data) (enumerate i urls)"
  by (induction urls arbitrary: i tasks) (auto simp: Let_def)

lemma make_tasks_enumerate:
  "make_tasks net request log_data 0 urls [] =
     map (\<lambda>(j, u). forward_request (net j) u request log_data) (enumerate 0 urls)"
  using make_tasks_append [of 0 "[]"] by simp

lemma fold_slots:
  "length s = length children \<Longrightarrow>
   (let s' = fold (\<lambda>i s. if i < length s then s[i := Some (children ! i)] else s) order s
    in length s' = length children \<and>
       (\<forall>j < length children. s' ! j = (if j \<in> set order then Some (children ! j) else s ! j)))"
proof (induction order arbitrary: s)
  case Nil
  then show ?case by simp
next
  case (Cons i order)
  let ?s1 = "if i < length s then s[i := Some (children ! i)] else s"
  have len: "length ?s1 = length children" using Cons.prems by simp
  from Cons.IH [OF len] show ?case
    using Cons.prems by (auto simp: Let_def nth_list_update)
qed

lemma gather_completes:
  assumes "completes (length children) order"
  shows "gather children order = Some (Inr children)"
proof -
  let ?s = "fold (\<lambda>i s. if i < length s then s[i := Some (children ! i)] else s)
              order (replicate (length children) None)"
  have fs: "length ?s = length children \<and>
            (\<forall>j < length children. ?s ! j =
               (if j \<in> set order then Some (children ! j) else replicate (length children) None ! j))"
    using fold_slots [of "replicate (length children) None" children order]
    by (simp add: Let_def)
  have mem: "\<forall>j < length children. j \<in> set order"
    using assms by (simp add: completes_def list_all_iff)
  have nth: "\<forall>j < length children. ?s ! j = Some (children ! j)"
    using fs mem by simp
  have all: "list_all (\<lambda>s. s \<noteq> None) ?s"
    using fs nth by (auto simp: list_all_length)
  have "map the ?s = children"
    using fs nth by (intro nth_equalityI) auto
  with all show ?thesis by (simp add: gather_def Let_def)
qed

lemma forward_request_result:
  "snd (forward_request client' u request log_data) = client' (outbound_request u request)"
  by (simp add: forward_request_def Let_def split: sum.splits)

lemma log_request_raises:
  "body request \<noteq> [] \<Longrightarrow> \<not> utf8_wf (map of_char (body request)) \<Longrightarrow>
   log_request now loads request = ([], Inl UnicodeDecodeError)"
  by (simp add: log_request_def body_data_def decode_def)

lemma log_request_returns:
  "body request = [] \<or> utf8_wf (map of_char (body request)) \<Longrightarrow>
   \<exists>ld. log_request now loads request = ([Info_request ld], Inr ld)"
  by (auto simp: log_request_def body_data_def decode_def Let_def split: sum.splits)

lemma log_request_Inl_independent:
  "snd (log_request now loads request) = Inl e \<Longrightarrow>
   log_request now' loads' request = ([], Inl e)"
  by (auto simp: log_request_def body_data_def decode_def Let_def split: sum.splits if_splits)

lemma log_request_Inr_independent:
  "snd (log_request now loads request) = Inr ld \<Longrightarrow>
   \<exists>ld'. log_request now' loads' request = ([Info_request ld'], Inr ld')"
  by (auto simp: log_request_def body_data_def decode_def Let_def split: sum.splits if_splits)

text \<open>
  What the handler computes when \<open>log_request\<close> returns and every task completes: the
  join holds, at each position, what the network answered to that destination.
\<close>

lemma forward_dispatched:
  assumes "snd (log_request now loads request) = Inr ld"
      and "completes (length (forward_urls CONFIG)) order"
  shows "forward CONFIG net order now loads request path =
     Some \<lparr> events = fst (log_request now loads request),
            task_events = map (\<lambda>(j, u). fst (forward_request (net j) u request ld))
                            (enumerate 0 (forward_urls CONFIG)),
            responses = map (\<lambda>(j, u). net j (outbound_request u request))
                            (enumerate 0 (forward_urls CONFIG)),
            outcome =
              (case forward_urls CONFIG of
                 [] \<Rightarrow> Inr no_valid_response
               | u # _ \<Rightarrow>
                   (case net 0 (outbound_request u request) of
                      Inr r \<Rightarrow> Inr (primary_to_response r)
                    | Inl e \<Rightarrow> Inr no_valid_response)) \<rparr>"
proof -
  let ?tasks = "map (\<lambda>(j, u). forward_request (net j) u request ld)
                  (enumerate 0 (forward_urls CONFIG))"
  obtain ev where lr: "log_request now loads request = (ev, Inr ld)"
    using assms(1) by (cases "log_request now loads request") auto
  have mt: "make_tasks net request ld 0 (forward_urls CONFIG) [] = ?tasks"
    by (rule make_tasks_enumerate)
  have g: "gather ?tasks order = Some (Inr ?tasks)"
    using assms(2) by (intro gather_completes) simp
  have fw: "forward CONFIG net order now loads request path =
     Some \<lparr> events = ev, task_events = map fst ?tasks, responses = map snd ?tasks,
            outcome =
              (case (if map snd ?tasks \<noteq> [] then Some (map snd ?tasks ! 0) else None) of
                 Some (Inr r) \<Rightarrow> Inr (primary_to_response r)
               | _ \<Rightarrow> Inr no_valid_response) \<rparr>"
    unfolding forward_def lr by (simp only: prod.case sum.case Let_def mt g option.case)
  have sn: "map snd ?tasks =
              map (\<lambda>(j, u). net j (outbound_request u request)) (enumerate 0 (forward_urls CONFIG))"
    by (simp add: forward_request_result split_def)
  have ft: "map fst ?tasks =
              map (\<lambda>(j, u). fst (forward_request (net j) u request ld))
                (enumerate 0 (forward_urls CONFIG))"
    by (simp add: split_def)
  show ?thesis
    unfolding fw sn ft using lr
    by (cases "forward_urls CONFIG") (simp_all split: sum.splits)
qed

text \<open>Unfolding sets for evaluating the model on the concrete inputs.\<close>

lemmas run_defs = forward_def log_request_def body_data_def decode_def cont_def
  forward_request_def outbound_request_def full_url_def gather_def primary_to_response_def Let_def

lemmas example_defs = example_request_def binary_request_def loads_fail_def not_found_response_def
  ok_response_def two_urls_def three_urls_def no_urls_def net_not_found_def net_primary_timeout_def
  net_all_timeout_def net_second_unreachable_def refusing_client_def example_log_data_def

lemma gather_Some_Inr: "gather children order = Some x \<Longrightarrow> \<exists>rs. x = Inr rs"
  by (auto simp: gather_def Let_def split: if_splits)

lemma forward_Some_outcome:
  assumes "forward CONFIG net order now loads request path = Some run"
  shows "outcome run =
           (case snd (log_request now loads request) of
              Inl e \<Rightarrow> Inl e
            | Inr ld \<Rightarrow>
                (case take 1 (responses run) of
                   [Inr r] \<Rightarrow> Inr (primary_to_response r)
                 | _ \<Rightarrow> Inr no_valid_response))"
    and "isl (snd (log_request now loads request)) \<Longrightarrow> responses run = []"
proof -
  obtain ev res where lr: "log_request now loads request = (ev, res)"
    by (cases "log_request now loads request")
  show "outcome run =
           (case snd (log_request now loads request) of
              Inl e \<Rightarrow> Inl e
            | Inr ld \<Rightarrow>
                (case take 1 (responses run) of
                   [Inr r] \<Rightarrow> Inr (primary_to_response r)
                 | _ \<Rightarrow> Inr no_valid_response))"
  proof (cases res)
    case (Inl e)
    with assms lr show ?thesis by (auto simp: forward_def)
  next
    case (Inr ld)
    let ?tasks = "make_tasks net request ld 0 (forward_urls CONFIG) []"
    from assms lr Inr obtain x where g: "gather ?tasks order = Some x"
      by (auto simp: forward_def Let_def split: option.splits)
    then obtain rs where x: "x = Inr rs" using gather_Some_Inr by blast
    from assms lr Inr g x show ?thesis
      by (cases rs) (auto simp: forward_def Let_def split: sum.splits)
  qed
  show "isl (snd (log_request now loads request)) \<Longrightarrow> responses run = []"
    using assms lr by (cases res) (auto simp: forward_def)
qed

lemma empty_forward_urls:
  assumes "snd (log_request now loads request) = Inr ld" and "forward_urls CONFIG = []"
  shows "forward CONFIG net order now loads request path =
           Some \<lparr> events = [Info_request ld], task_events = [], responses = [],
                  outcome = Inr no_valid_response \<rparr>"
proof -
  have c: "completes (length (forward_urls CONFIG)) order"
    using assms(2) by (simp add: completes_def)
  obtain ld' where "log_request now loads request = ([Info_request ld'], Inr ld')"
    using log_request_Inr_independent [OF assms(1)] by blast
  with assms(1) have ev: "fst (log_request now loads request) = [Info_request ld]" by simp
  show ?thesis
    using forward_dispatched [OF assms(1) c, of net path] assms(2) ev by simp
qed

section \<open>Theorems\<close>


text \<open>
  C1: when \<open>log_request\<close> has returned, every task completes and the exchange with the
  primary destination (index 0) yields a response, whatever its status code, the handler
  returns a response with the status code and the body of that response; it is neither
  the synthesized 502 response nor the synthesized 500 response.
\<close>

theorem primary_response_returned_verbatim:
  assumes "snd (log_request now loads request) = Inr ld"
      and "completes (length (forward_urls CONFIG)) order"
      and "forward_urls CONFIG = u # rest"
      and "net 0 (outbound_request u request) = Inr r"
  shows "\<exists>run resp. forward CONFIG net order now loads request path = Some run
           \<and> outcome run = Inr resp
           \<and> status_code resp = resp_status_code r
           \<and> content resp = resp_content r
           \<and> resp \<noteq> no_valid_response \<and> resp \<noteq> forwarding_failed_response"
  using forward_dispatched [OF assms(1,2), of net path] assms(3,4)
  by (simp add: primary_to_response_def no_valid_response_def forwarding_failed_response_def)

text \<open>
  The primary destination answers 404 with the body \<open>{"msg":"not found"}\<close>: the caller
  receives status 404 and that body.
\<close>

theorem primary_response_returned_verbatim_witness:
  \<open>snd (log_request ''2024-01-01T00:00:00'' loads_fail example_request) = Inr example_log_data
   \<and> completes (length (forward_urls two_urls)) [1, 0]
   \<and> forward_urls two_urls = ''http://a.example/in'' # [''http://b.example/in'']
   \<and> net_not_found 0 (outbound_request ''http://a.example/in'' example_request)
       = Inr not_found_response
   \<and> (\<exists>run resp.
         forward two_urls net_not_found [1, 0] ''2024-01-01T00:00:00'' loads_fail
           example_request ''hook'' = Some run
         \<and> outcome run = Inr resp
         \<and> status_code resp = 404
         \<and> content resp = ''{"msg":"not found"}''
         \<and> resp \<noteq> no_valid_response \<and> resp \<noteq> forwarding_failed_response)\<close>
proof -
  have h1: "snd (log_request ''2024-01-01T00:00:00'' loads_fail example_request)
              = Inr example_log_data"
    by (simp add: run_defs example_defs)
  have h2: "completes (length (forward_urls two_urls)) [1, 0]"
    by (simp add: completes_def two_urls_def upt_rec)
  have h3: "forward_urls two_urls = ''http://a.example/in'' # [''http://b.example/in'']"
    by (simp add: two_urls_def)
  have h4: "net_not_found 0 (outbound_request ''http://a.example/in'' example_request)
              = Inr not_found_response"
    by (simp add: net_not_found_def)
  show ?thesis
    using h1 h2 h3 h4 primary_response_returned_verbatim
            [where net = net_not_found and path = "''hook''", OF h1 h2 h3 h4]
    by (simp add: not_found_response_def)
qed

text \<open>
  C2: two runs of the handler on the same request whose joins hold the same value at
  index 0 (or both hold none) return the same final response, whatever the destinations
  after the first, the behaviour of the network towards them, the completion order, the
  clock and the JSON parser; and when the value at index 0 is an exception, the final
  response is the synthesized 502 response.
\<close>

theorem final_response_depends_on_primary_only:
  assumes "forward CONFIG1 net1 order1 now1 loads1 request path1 = Some run1"
      and "forward CONFIG2 net2 order2 now2 loads2 request path2 = Some run2"
      and "take 1 (responses run1) = take 1 (responses run2)"
  shows "outcome run1 = outcome run2
         \<and> (\<forall>e. take 1 (responses run1) = [Inl e] \<longrightarrow> outcome run1 = Inr no_valid_response)"
proof (cases "snd (log_request now1 loads1 request)")
  case (Inl e)
  then have l2: "snd (log_request now2 loads2 request) = Inl e"
    using log_request_Inl_independent [OF Inl, of now2 loads2] by simp
  have "responses run1 = []"
    using forward_Some_outcome(2) [OF assms(1)] Inl by simp
  then show ?thesis
    using forward_Some_outcome(1) [OF assms(1)] forward_Some_outcome(1) [OF assms(2)] Inl l2
    by simp
next
  case (Inr ld)
  then obtain ld' where l2: "snd (log_request now2 loads2 request) = Inr ld'"
    using log_request_Inr_independent [OF Inr, of now2 loads2] by auto
  show ?thesis
    using forward_Some_outcome(1) [OF assms(1)] forward_Some_outcome(1) [OF assms(2)] Inr l2
      assms(3)
    by simp
qed

text \<open>
  The primary destination times out in both runs; the second destination answers 200 in
  the first run and times out in the second. Both runs return the 502 response.
\<close>

theorem final_response_depends_on_primary_only_witness:
  "forward two_urls net_primary_timeout [1, 0] ''2024-01-01T00:00:00'' loads_fail
     example_request ''hook'' =
     Some \<lparr> events = [Info_request example_log_data],
            task_events =
              [[Debug_forwarding_request example_log_data ''http://a.example/in?a=1&b=2'',
                Error_forwarding_error example_log_data ''http://a.example/in'' ''timed out''],
               [Debug_forwarding_request example_log_data ''http://b.example/in?a=1&b=2'',
                Debug_received_response example_log_data ''http://b.example/in?a=1&b=2'' 200 2]],
            responses = [Inl (TimeoutException ''timed out''), Inr ok_response],
            outcome = Inr no_valid_response \<rparr>
   \<and> forward two_urls net_all_timeout [0, 1] ''2024-01-01T00:00:00'' loads_fail
       example_request ''hook'' =
     Some \<lparr> events = [Info_request example_log_data],
            task_events =
              [[Debug_forwarding_request example_log_data ''http://a.example/in?a=1&b=2'',
                Error_forwarding_error example_log_data ''http://a.example/in'' ''timed out''],
               [Debug_forwarding_request example_log_data ''http://b.example/in?a=1&b=2'',
                Error_forwarding_error example_log_data ''http://b.example/in'' ''timed out'']],
            responses = [Inl (TimeoutException ''timed out''), Inl (TimeoutException ''timed out'')],
            outcome = Inr no_valid_response \<rparr>
   \<and> take 1 [Inl (TimeoutException ''timed out''), Inr ok_response]
       = take 1 [Inl (TimeoutException ''timed out''), Inl (TimeoutException ''timed out'')]
   \<and> take 1 [Inl (TimeoutException ''timed out''), Inr ok_response]
       = [Inl (TimeoutException ''timed out'')]"
proof -
  let ?run1 = "\<lparr> events = [Info_request example_log_data],
            task_events =
              [[Debug_forwarding_request example_log_data ''http://a.example/in?a=1&b=2'',
                Error_forwarding_error example_log_data ''http://a.example/in'' ''timed out''],
               [Debug_forwarding_request example_log_data ''http://b.example/in?a=1&b=2'',
                Debug_received_response example_log_data ''http://b.example/in?a=1&b=2'' 200 2]],
            responses = [Inl (TimeoutException ''timed out''), Inr ok_response],
            outcome = Inr no_valid_response \<rparr>"
  let ?run2 = "\<lparr> events = [Info_request example_log_data],
            task_events =
              [[Debug_forwarding_request example_log_data ''http://a.example/in?a=1&b=2'',
                Error_forwarding_error example_log_data ''http://a.example/in'' ''timed out''],
               [Debug_forwarding_request example_log_data ''http://b.example/in?a=1&b=2'',
                Error_forwarding_error example_log_data ''http://b.example/in'' ''timed out'']],
            responses = [Inl (TimeoutException ''timed out''), Inl (TimeoutException ''timed out'')],
            outcome = Inr no_valid_response \<rparr>"
  have h1: "forward two_urls net_primary_timeout [1, 0] ''2024-01-01T00:00:00'' loads_fail
              example_request ''hook'' = Some ?run1"
    by (simp add: run_defs example_defs)
  have h2: "forward two_urls net_all_timeout [0, 1] ''2024-01-01T00:00:00'' loads_fail
              example_request ''hook'' = Some ?run2"
    by (simp add: run_defs example_defs)
  have h3: "take 1 (responses ?run1) = take 1 (responses ?run2)"
    by simp
  show ?thesis
    using h1 h2 h3 final_response_depends_on_primary_only [OF h1 h2 h3]
    by simp
qed

text \<open>
  C4 (as amended): when the client raises during the exchange with a destination,
  \<open>forward_request\<close> logs the forwarding-error event with the destination base URL and
  the error text and raises the same exception to its caller; in the handler the join
  holds that exception as the value at the destination's index and the handler returns
  a response.
\<close>

theorem dispatch_error_logged_reraised_and_collected:
  assumes "snd (log_request now loads request) = Inr ld"
      and "completes (length (forward_urls CONFIG)) order"
      and "i < length (forward_urls CONFIG)"
      and "net i (outbound_request (forward_urls CONFIG ! i) request) = Inl e"
  shows "forward_request (net i) (forward_urls CONFIG ! i) request ld =
           ([Debug_forwarding_request ld (full_url (forward_urls CONFIG ! i) request),
             Error_forwarding_error ld (forward_urls CONFIG ! i) (str_exn e)], Inl e)
         \<and> (\<exists>run resp. forward CONFIG net order now loads request path = Some run
              \<and> responses run ! i = Inl e
              \<and> task_events run ! i =
                  [Debug_forwarding_request ld (full_url (forward_urls CONFIG ! i) request),
                   Error_forwarding_error ld (forward_urls CONFIG ! i) (str_exn e)]
              \<and> outcome run = Inr resp)"
proof -
  have fr: "forward_request (net i) (forward_urls CONFIG ! i) request ld =
           ([Debug_forwarding_request ld (full_url (forward_urls CONFIG ! i) request),
             Error_forwarding_error ld (forward_urls CONFIG ! i) (str_exn e)], Inl e)"
    using assms(4) by (simp add: forward_request_def outbound_request_def)
  show ?thesis
    using forward_dispatched [OF assms(1,2), of net path] assms(3,4) fr
    by (auto simp: nth_enumerate_eq split: list.splits sum.splits)
qed

text \<open>The second of three destinations refuses the connection.\<close>

theorem dispatch_error_logged_reraised_and_collected_witness:
  "snd (log_request ''2024-01-01T00:00:00'' loads_fail example_request) = Inr example_log_data
   \<and> completes (length (forward_urls three_urls)) [2, 0, 1]
   \<and> (1::nat) < length (forward_urls three_urls)
   \<and> net_second_unreachable 1 (outbound_request (forward_urls three_urls ! 1) example_request)
       = Inl (ConnectError ''connection refused'')
   \<and> forward_request (net_second_unreachable 1) (forward_urls three_urls ! 1) example_request
       example_log_data =
         ([Debug_forwarding_request example_log_data
             (full_url (forward_urls three_urls ! 1) example_request),
           Error_forwarding_error example_log_data (forward_urls three_urls ! 1)
             (str_exn (ConnectError ''connection refused''))],
          Inl (ConnectError ''connection refused''))
   \<and> (\<exists>run resp.
         forward three_urls net_second_unreachable [2, 0, 1] ''2024-01-01T00:00:00'' loads_fail
           example_request ''hook'' = Some run
         \<and> responses run ! 1 = Inl (ConnectError ''connection refused'')
         \<and> task_events run ! 1 =
             [Debug_forwarding_request example_log_data
                (full_url (forward_urls three_urls ! 1) example_request),
              Error_forwarding_error example_log_data (forward_urls three_urls ! 1)
                (str_exn (ConnectError ''connection refused''))]
         \<and> outcome run = Inr resp)"
proof -
  have h1: "snd (log_request ''2024-01-01T00:00:00'' loads_fail example_request)
              = Inr example_log_data"
    by (simp add: run_defs example_defs)
  have h2: "completes (length (forward_urls three_urls)) [2, 0, 1]"
    by (simp add: completes_def three_urls_def upt_rec)
  have h3: "(1::nat) < length (forward_urls three_urls)"
    by (simp add: three_urls_def)
  have h4: "net_second_unreachable 1
              (outbound_request (forward_urls three_urls ! 1) example_request)
              = Inl (ConnectError ''connection refused'')"
    by (simp add: net_second_unreachable_def)
  show ?thesis
    using h1 h2 h3 h4 dispatch_error_logged_reraised_and_collected
            [where net = net_second_unreachable and i = 1 and path = "''hook''", OF h1 h2 h3 h4]
    by (intro conjI) (erule conjunct1 conjunct2 | assumption)+
qed

text \<open>
  C4 as stated does not hold: with a client that refuses the connection,
  \<open>forward_request\<close> does not return a value; the exception leaves the function.
\<close>

theorem forward_request_reraises_counterexample:
  "snd (forward_request refusing_client ''http://a.example/in'' example_request example_log_data)
     = Inl (ConnectError ''connection refused'')"
  by (simp add: forward_request_result refusing_client_def)

text \<open>
  C5: with an empty \<open>forward_urls\<close> list the handler is to return the 502 response for
  every inbound request. For a request whose body is the single byte \<open>0xFF\<close> it does not:
  \<open>log_request\<close> raises \<open>UnicodeDecodeError\<close> and the exception leaves the handler. (For
  a request on which \<open>log_request\<close> returns, \<open>empty_forward_urls\<close> above gives the 502
  response and no dispatch.)
\<close>

theorem empty_forward_urls_binary_body_raises:
  "forward no_urls net_not_found [] ''2024-01-01T00:00:00'' loads_fail binary_request ''hook''
     = Some \<lparr> events = [], task_events = [], responses = [], outcome = Inl UnicodeDecodeError \<rparr>"
  by (simp add: run_defs example_defs)

text \<open>
  C6: the request passed to the client has the method and the body of the inbound
  request and its headers without the key \<open>host\<close>; the requests for two destinations
  differ in the URL only; and \<open>forward_request\<close> passes exactly this request to the
  client, whatever the client answers and whatever the log data, so that two invocations
  with the same request and destination send the same method, headers and body.
\<close>

theorem outbound_request_structurally_equivalent:
  "o_method (outbound_request u request) = req_method request
   \<and> o_content (outbound_request u request) = body request
   \<and> o_headers (outbound_request u request) = (headers request)(''host'' := None)
   \<and> outbound_request u1 request = (outbound_request u2 request)\<lparr>o_url := full_url u1 request\<rparr>
   \<and> snd (forward_request client1 u request log_data1) = client1 (outbound_request u request)
   \<and> snd (forward_request client2 u request log_data2) = client2 (outbound_request u request)"
  by (simp add: outbound_request_def forward_request_result)



text \<open>
  C8: when \<open>log_request\<close> has returned and every task completes, in any completion
  order, the join holds at each index \<open>i\<close> the outcome of \<open>forward_request\<close> for the
  destination at index \<open>i\<close>, and the final response is determined by the value at index
  0 alone.
\<close>

theorem responses_positional:
  assumes "snd (log_request now loads request) = Inr ld"
      and "completes (length (forward_urls CONFIG)) order"
  shows "\<exists>run. forward CONFIG net order now loads request path = Some run
           \<and> length (responses run) = length (forward_urls CONFIG)
           \<and> (\<forall>i < length (forward_urls CONFIG).
                 responses run ! i =
                   snd (forward_request (net i) (forward_urls CONFIG ! i) request ld))
           \<and> outcome run =
               (case take 1 (responses run) of
                  [Inr r] \<Rightarrow> Inr (primary_to_response r)
                | _ \<Rightarrow> Inr no_valid_response)"
proof -
  let ?run = "the (forward CONFIG net order now loads request path)"
  have fw: "forward CONFIG net order now loads request path = Some ?run"
    using forward_dispatched [OF assms, of net path] by simp
  have rs: "responses ?run = map (\<lambda>(j, u). net j (outbound_request u request))
                            (enumerate 0 (forward_urls CONFIG))"
    using forward_dispatched [OF assms, of net path] by simp
  have "length (responses ?run) = length (forward_urls CONFIG)"
    by (simp add: rs)
  moreover have "\<forall>i < length (forward_urls CONFIG).
                 responses ?run ! i =
                   snd (forward_request (net i) (forward_urls CONFIG ! i) request ld)"
    by (simp add: rs nth_enumerate_eq forward_request_result)
  moreover have "outcome ?run =
               (case take 1 (responses ?run) of
                  [Inr r] \<Rightarrow> Inr (primary_to_response r)
                | _ \<Rightarrow> Inr no_valid_response)"
    using forward_Some_outcome(1) [OF fw] assms(1) by simp
  ultimately show ?thesis using fw by blast
qed

text \<open>
  Three destinations, the second one unreachable, completing in the order 2, 0, 1: the
  join holds the exception at index 1 and the responses of the first and the third
  destination at indices 0 and 2; the final response is built from index 0.
\<close>

theorem responses_positional_witness:
  "snd (log_request ''2024-01-01T00:00:00'' loads_fail example_request) = Inr example_log_data
   \<and> completes (length (forward_urls three_urls)) [2, 0, 1]
   \<and> (1::nat) < length (forward_urls three_urls)
   \<and> (\<exists>run.
         forward three_urls net_second_unreachable [2, 0, 1] ''2024-01-01T00:00:00'' loads_fail
           example_request ''hook'' = Some run
         \<and> length (responses run) = 3
         \<and> responses run ! 0 = Inr not_found_response
         \<and> responses run ! 1 = Inl (ConnectError ''connection refused'')
         \<and> responses run ! 2 = Inr ok_response
         \<and> outcome run = Inr (primary_to_response not_found_response))"
proof -
  have h1: "snd (log_request ''2024-01-01T00:00:00'' loads_fail example_request)
              = Inr example_log_data"
    by (simp add: run_defs example_defs)
  have h2: "completes (length (forward_urls three_urls)) [2, 0, 1]"
    by (simp add: completes_def three_urls_def upt_rec)
  have h3: "(1::nat) < length (forward_urls three_urls)"
    by (simp add: three_urls_def)
  from responses_positional [OF h1 h2, of net_second_unreachable "''hook''"]
  obtain run where
    r: "forward three_urls net_second_unreachable [2, 0, 1] ''2024-01-01T00:00:00'' loads_fail
          example_request ''hook'' = Some run"
       "length (responses run) = length (forward_urls three_urls)"
       "\<forall>i < length (forward_urls three_urls).
           responses run ! i =
             snd (forward_request (net_second_unreachable i) (forward_urls three_urls ! i)
                    example_request example_log_data)"
       "outcome run =
               (case take 1 (responses run) of
                  [Inr r] \<Rightarrow> Inr (primary_to_response r)
                | _ \<Rightarrow> Inr no_valid_response)"
    by (elim exE conjE) (rule that; assumption)
  have l: "length (responses run) = 3" using r(2) by (simp add: three_urls_def)
  have r0: "responses run ! 0 = Inr not_found_response"
    using r(3) by (simp add: three_urls_def forward_request_result net_second_unreachable_def)
  have r1: "responses run ! 1 = Inl (ConnectError ''connection refused'')"
    using r(3) by (simp add: three_urls_def forward_request_result net_second_unreachable_def)
  have r2: "responses run ! 2 = Inr ok_response"
    using r(3) by (simp add: three_urls_def forward_request_result net_second_unreachable_def)
  have t: "take 1 (responses run) = [Inr not_found_response]"
    using l r0 by (cases "responses run") simp_all
  have oc: "outcome run = Inr (primary_to_response not_found_response)"
    using r(4) t by simp
  have "\<exists>run.
         forward three_urls net_second_unreachable [2, 0, 1] ''2024-01-01T00:00:00'' loads_fail
           example_request ''hook'' = Some run
         \<and> length (responses run) = 3
         \<and> responses run ! 0 = Inr not_found_response
         \<and> responses run ! 1 = Inl (ConnectError ''connection refused'')
         \<and> responses run ! 2 = Inr ok_response
         \<and> outcome run = Inr (primary_to_response not_found_response)"
    by (intro exI conjI) (rule r(1) l r0 r1 r2 oc)+
  with h1 h2 h3 show ?thesis by (intro conjI)
qed

text \<open>
  C9: a failure while building the inbound log event is not to abort the request. For a
  request whose body is the single byte \<open>0xFF\<close>, the second \<open>body.decode()\<close>, in the
  \<open>except\<close> branch of \<open>log_request\<close>, raises \<open>UnicodeDecodeError\<close>: \<open>log_request\<close> raises,
  no event is logged, no destination is contacted and the exception leaves the handler.
\<close>

theorem binary_body_aborts_request:
  "log_request ''2024-01-01T00:00:00'' loads_fail binary_request = ([], Inl UnicodeDecodeError)
   \<and> forward two_urls net_not_found [1, 0] ''2024-01-01T00:00:00'' loads_fail binary_request
       ''hook''
     = Some \<lparr> events = [], task_events = [], responses = [], outcome = Inl UnicodeDecodeError \<rparr>"
  by (simp add: run_defs example_defs)

text \<open>
  C10: when every task completes, the handler returns, its result is never the
  synthesized 500 response and it never logs the forwarding-failed event, whatever the
  exchanges with the destinations do; and an exception of the primary destination's
  \<open>forward_request\<close> yields the synthesized 502 response.
\<close>

theorem dispatch_exception_never_reaches_except_branch:
  assumes "completes (length (forward_urls CONFIG)) order"
  shows "\<exists>run. forward CONFIG net order now loads request path = Some run
           \<and> outcome run \<noteq> Inr forwarding_failed_response
           \<and> (\<forall>ld t. Error_forwarding_failed ld t \<notin> set (events run))
           \<and> (\<forall>ld u rest e.
                 snd (log_request now loads request) = Inr ld
                 \<and> forward_urls CONFIG = u # rest
                 \<and> snd (forward_request (net 0) u request ld) = Inl e
                 \<longrightarrow> outcome run = Inr no_valid_response)"
proof (cases "snd (log_request now loads request)")
  case (Inl e)
  then have "log_request now loads request = ([], Inl e)"
    using log_request_Inl_independent by blast
  then show ?thesis by (simp add: forward_def)
next
  case (Inr ld)
  then obtain ld' where "log_request now loads request = ([Info_request ld'], Inr ld')"
    using log_request_Inr_independent by blast
  with Inr have ev: "fst (log_request now loads request) = [Info_request ld]" by simp
  show ?thesis
    using forward_dispatched [OF Inr assms, of net path] Inr ev
    by (auto simp: forward_request_result primary_to_response_def no_valid_response_def
          forwarding_failed_response_def split: list.splits sum.splits)
qed

text \<open>The primary destination times out: the handler returns the 502 response.\<close>

theorem dispatch_exception_never_reaches_except_branch_witness:
  "completes (length (forward_urls two_urls)) [1, 0]
   \<and> snd (log_request ''2024-01-01T00:00:00'' loads_fail example_request) = Inr example_log_data
   \<and> forward_urls two_urls = ''http://a.example/in'' # [''http://b.example/in'']
   \<and> snd (forward_request (net_primary_timeout 0) ''http://a.example/in'' example_request
            example_log_data) = Inl (TimeoutException ''timed out'')
   \<and> (\<exists>run.
         forward two_urls net_primary_timeout [1, 0] ''2024-01-01T00:00:00'' loads_fail
           example_request ''hook'' = Some run
         \<and> outcome run \<noteq> Inr forwarding_failed_response
         \<and> outcome run = Inr no_valid_response)"
proof -
  have h1: "completes (length (forward_urls two_urls)) [1, 0]"
    by (simp add: completes_def two_urls_def upt_rec)
  have h2: "snd (log_request ''2024-01-01T00:00:00'' loads_fail example_request)
              = Inr example_log_data"
    by (simp add: run_defs example_defs)
  have h3: "forward_urls two_urls = ''http://a.example/in'' # [''http://b.example/in'']"
    by (simp add: two_urls_def)
  have h4: "snd (forward_request (net_primary_timeout 0) ''http://a.example/in'' example_request
              example_log_data) = Inl (TimeoutException ''timed out'')"
    by (simp add: forward_request_result net_primary_timeout_def)
  from dispatch_exception_never_reaches_except_branch
         [OF h1, of net_primary_timeout "''2024-01-01T00:00:00''" loads_fail example_request
            "''hook''"]
  obtain run where
    r: "forward two_urls net_primary_timeout [1, 0] ''2024-01-01T00:00:00'' loads_fail
          example_request ''hook'' = Some run"
       "outcome run \<noteq> Inr forwarding_failed_response"
       "\<forall>ld u rest e.
           snd (log_request ''2024-01-01T00:00:00'' loads_fail example_request) = Inr ld
           \<and> forward_urls two_urls = u # rest
           \<and> snd (forward_request (net_primary_timeout 0) u example_request ld) = Inl e
           \<longrightarrow> outcome run = Inr no_valid_response"
    by (elim exE conjE) (rule that; assumption)
  have "snd (log_request ''2024-01-01T00:00:00'' loads_fail example_request)
          = Inr example_log_data
        \<and> forward_urls two_urls = ''http://a.example/in'' # [''http://b.example/in'']
        \<and> snd (forward_request (net_primary_timeout 0) ''http://a.example/in'' example_request
                 example_log_data) = Inl (TimeoutException ''timed out'')
        \<longrightarrow> outcome run = Inr no_valid_response"
    by (rule r(3) [THEN spec, THEN spec, THEN spec, THEN spec])
  with h2 h3 h4 have oc: "outcome run = Inr no_valid_response"
    by (elim impE) (intro conjI)
  have "\<exists>run.
         forward two_urls net_primary_timeout [1, 0] ''2024-01-01T00:00:00'' loads_fail
           example_request ''hook'' = Some run
         \<and> outcome run \<noteq> Inr forwarding_failed_response
         \<and> outcome run = Inr no_valid_response"
    by (intro exI conjI) (rule r(1) r(2) oc)+
  with h1 h2 h3 h4 show ?thesis by (intro conjI)
qed

end
